theory Spec2Isabelle
  imports Main
begin

section \<open>Exceptions and results\<close>

text \<open>
  The exceptions that the modelled part of \<^verbatim>\<open>pymatgen/io/abinitio/workflow.py\<close> can
  raise or let through. \<open>Exception\<close> stands for any other exception raised by an
  overridden hook.
\<close>

datatype exn =
    FileLockException
  | OSError
  | IOError
  | KeyError string
  | IndexError
  | NameError string
  | AttributeError string
  | ValueError
  | TypeError
  | NotImplementedError string
  | Exception string

section \<open>Paths (\<^verbatim>\<open>os.path\<close> on POSIX)\<close>

definition startswith :: "string \<Rightarrow> string \<Rightarrow> bool" where
  "startswith s p = (take (length p) s = p)"

definition endswith :: "string \<Rightarrow> string \<Rightarrow> bool" where
  "endswith s p = (length p \<le> length s \<and> drop (length s - length p) s = p)"

text \<open>\<^verbatim>\<open>os.path.join(a, b)\<close>: an absolute second component replaces the first.\<close>

definition os_path_join :: "string \<Rightarrow> string \<Rightarrow> string" where
  "os_path_join a b =
     (if startswith b ''/'' then b
      else if a = [] \<or> endswith a ''/'' then a @ b
      else a @ ''/'' @ b)"

text \<open>
  \<^verbatim>\<open>os.path.split(p)\<close>: the head is everything up to the last slash (trailing slashes
  stripped unless the head is only slashes), the tail everything after it.
\<close>

definition rstrip_slash :: "string \<Rightarrow> string" where
  "rstrip_slash s = rev (dropWhile (\<lambda>c. c = CHR ''/'') (rev s))"

definition os_path_split :: "string \<Rightarrow> string \<times> string" where
  "os_path_split p =
     (let i = length p - length (takeWhile (\<lambda>c. c \<noteq> CHR ''/'') (rev p));
          head = take i p;
          tail = drop i p
      in (if head \<noteq> [] \<and> head \<noteq> replicate (length head) (CHR ''/'')
          then rstrip_slash head else head, tail))"

definition os_path_dirname :: "string \<Rightarrow> string" where
  "os_path_dirname p = fst (os_path_split p)"

definition os_path_basename :: "string \<Rightarrow> string" where
  "os_path_basename p = snd (os_path_split p)"

text \<open>\<^verbatim>\<open>str.split(sep)\<close> for a one-character separator and \<^verbatim>\<open>sep.join(xs)\<close>.\<close>

fun str_split :: "char \<Rightarrow> string \<Rightarrow> string list" where
  "str_split sep [] = [[]]"
| "str_split sep (c # cs) =
     (if c = sep then [] # str_split sep cs
      else (case str_split sep cs of
              [] \<Rightarrow> [[c]]
            | x # xs \<Rightarrow> (c # x) # xs))"

fun str_join :: "string \<Rightarrow> string list \<Rightarrow> string" where
  "str_join sep [] = []"
| "str_join sep [x] = x"
| "str_join sep (x # y # ys) = x @ sep @ str_join sep (y # ys)"

text \<open>
  \<^verbatim>\<open>os.path.normpath\<close>: the loop over the components drops empty ones and \<^verbatim>\<open>.\<close>, and
  lets \<^verbatim>\<open>..\<close> remove the component before it.
\<close>

definition normpath_step :: "nat \<Rightarrow> string list \<Rightarrow> string \<Rightarrow> string list" where
  "normpath_step initial_slashes new_comps part =
     (if part = [] \<or> part = ''.'' then new_comps
      else if part \<noteq> ''..'' \<or> (initial_slashes = 0 \<and> new_comps = [])
                \<or> (new_comps \<noteq> [] \<and> last new_comps = ''..'')
      then new_comps @ [part]
      else if new_comps \<noteq> [] then butlast new_comps
      else new_comps)"

definition os_path_normpath :: "string \<Rightarrow> string" where
  "os_path_normpath path =
     (if path = [] then ''.''
      else
        let initial_slashes =
              (if startswith path ''/''
               then (if startswith path ''//'' \<and> \<not> startswith path ''///'' then 2 else 1)
               else (0::nat));
            comps = foldl (normpath_step initial_slashes) [] (str_split (CHR ''/'') path);
            p = str_join ''/'' comps;
            p' = (if initial_slashes \<noteq> 0 then replicate initial_slashes (CHR ''/'') @ p else p)
        in if p' = [] then ''.'' else p')"

text \<open>\<^verbatim>\<open>os.path.abspath\<close>; the current directory of the process is the parameter \<open>cwd\<close>.\<close>

definition os_path_abspath :: "string \<Rightarrow> string \<Rightarrow> string" where
  "os_path_abspath cwd path =
     os_path_normpath (if startswith path ''/'' then path else os_path_join cwd path)"

section \<open>The world outside the process\<close>

text \<open>
  What the workflow code reads and writes: regular files with their contents, directories,
  and the locks that are currently held. Paths are the normalised absolute strings that
  \<open>os_path_abspath\<close> produces.
\<close>

record world =
  files :: "string \<rightharpoonup> string"
  dirs :: "string set"
  locks :: "string set"

type_synonym 'a action = "world \<Rightarrow> (exn + 'a) \<times> world"

text \<open>Sequencing of two statements: an exception of the first skips the second.\<close>

definition seq :: "'a action \<Rightarrow> ('a \<Rightarrow> 'b action) \<Rightarrow> 'b action" where
  "seq m f w = (case m w of (Inl e, w') \<Rightarrow> (Inl e, w') | (Inr a, w') \<Rightarrow> f a w')"

definition os_path_exists :: "world \<Rightarrow> string \<Rightarrow> bool" where
  "os_path_exists w p = (files w p \<noteq> None \<or> p \<in> dirs w)"

definition isdir :: "world \<Rightarrow> string \<Rightarrow> bool" where
  "isdir w p = (p \<in> dirs w \<or> p = ''/'')"

text \<open>The proper ancestors of a path below the root: its prefixes that end before a slash.\<close>

definition ancestors :: "string \<Rightarrow> string list" where
  "ancestors p = map (\<lambda>i. take i p) (filter (\<lambda>i. p ! i = CHR ''/'') [1..<length p])"

text \<open>
  \<^verbatim>\<open>os.makedirs(name)\<close>: fails with \<^verbatim>\<open>OSError\<close> when the leaf exists or when an
  ancestor is a regular file; otherwise the leaf and every missing ancestor become
  directories. A failing call creates nothing.
\<close>

definition makedirs :: "string \<Rightarrow> unit action" where
  "makedirs name w =
     (if os_path_exists w name then (Inl OSError, w)
      else if list_ex (\<lambda>a. files w a \<noteq> None) (ancestors name) then (Inl OSError, w)
      else (Inr (), w\<lparr>dirs := dirs w \<union> set (ancestors name) \<union> {name}\<rparr>))"

text \<open>
  \<^verbatim>\<open>with open(path, "w") as f: f.write(string)\<close>: fails with \<^verbatim>\<open>IOError\<close> when the path
  is a directory or its parent is not one; otherwise the file holds exactly the string.
\<close>

definition open_write :: "string \<Rightarrow> string \<Rightarrow> unit action" where
  "open_write p s w =
     (if p \<in> dirs w \<or> \<not> isdir w (os_path_dirname p) then (Inl IOError, w)
      else (Inr (), w\<lparr>files := (files w)(p \<mapsto> s)\<rparr>))"

text \<open>\<^verbatim>\<open>f.readlines()\<close>: the lines of a text, each with its line end.\<close>

fun readlines :: "string \<Rightarrow> string list" where
  "readlines [] = []"
| "readlines (c # cs) =
     (if c = CHR 0x0A then [c] # readlines cs
      else (case readlines cs of
              [] \<Rightarrow> [[c]]
            | l # ls \<Rightarrow> (c # l) # ls))"

definition open_readlines :: "string \<Rightarrow> (string list) action" where
  "open_readlines p w =
     (case files w p of
        None \<Rightarrow> (Inl IOError, w)
      | Some s \<Rightarrow> (Inr (readlines s), w))"

subsection \<open>FileLock\<close>

text \<open>
  Modelled from the spec: class \<^verbatim>\<open>FileLock\<close> of \<^verbatim>\<open>pymatgen.util.filelock\<close>, which
  \<^verbatim>\<open>workflow.py\<close> imports and which is not among the sources. The spec: a lock is keyed by
  a fixed path inside the directory it protects; acquire fails distinguishably (a
  lock-contention error, not a generic I/O error) if the lock is already held.
\<close>

definition FileLock_acquire :: "string \<Rightarrow> unit action" where
  "FileLock_acquire p w =
     (if p \<in> locks w then (Inl FileLockException, w)
      else (Inr (), w\<lparr>locks := insert p (locks w)\<rparr>))"

definition FileLock_release :: "string \<Rightarrow> unit action" where
  "FileLock_release p w = (Inr (), w\<lparr>locks := locks w - {p}\<rparr>)"

section \<open>File\<close>

record File =
  basename :: string
  dirname :: string
  path :: string

definition File_init :: "string \<Rightarrow> string \<Rightarrow> string \<Rightarrow> File" where
  "File_init cwd bn dn =
     (let d = os_path_abspath cwd dn
      in \<lparr>basename = bn, dirname = d, path = os_path_join d bn\<rparr>)"

definition File_exists :: "File \<Rightarrow> world \<Rightarrow> bool" where
  "File_exists f w = os_path_exists w (path f)"

definition File_write :: "File \<Rightarrow> string \<Rightarrow> unit action" where
  "File_write f s = open_write (path f) s"

section \<open>AbinitTask\<close>

text \<open>
  The collaborators that \<^verbatim>\<open>workflow.py\<close> imports and only calls are parameters: the
  \<^verbatim>\<open>Input\<close> object (type \<open>'i\<close>) with its \<^verbatim>\<open>copy\<close>, \<^verbatim>\<open>add_vars_to_control\<close>,
  \<^verbatim>\<open>__str__\<close> and the paths of its \<^verbatim>\<open>pseudos\<close>; the text of the \<^verbatim>\<open>JobFile\<close>; and the
  current directory of the process.
\<close>

record 'i externals =
  getcwd :: string
  Input_copy :: "'i \<Rightarrow> 'i"
  Input_add_vars_to_control :: "'i \<Rightarrow> (string \<times> string) list \<Rightarrow> 'i"
  Input_str :: "'i \<Rightarrow> string"
  Input_pseudo_paths :: "'i \<Rightarrow> string list"

record JobFile =
  jf_name :: string
  jf_input :: string
  jf_log :: string
  jf_stderr :: string

record Prefix =
  idata :: string
  odata :: string
  tdata :: string

record Basename =
  input_bn :: string
  output_bn :: string
  files_file_bn :: string
  log_file_bn :: string
  stderr_file_bn :: string
  jobfile_bn :: string
  lockfile_bn :: string

definition AbinitTask_prefix :: Prefix where
  "AbinitTask_prefix =
     \<lparr>idata = ''in'',
      odata = os_path_join ''output'' ''out'',
      tdata = os_path_join ''temporary'' ''tmp''\<rparr>"

definition AbinitTask_basename :: Basename where
  "AbinitTask_basename =
     \<lparr>input_bn = ''run.input'', output_bn = ''run.output'', files_file_bn = ''run.files'',
      log_file_bn = ''log'', stderr_file_bn = ''stderr'', jobfile_bn = ''job.sh'',
      lockfile_bn = ''__lock__''\<rparr>"

text \<open>
  The attributes of a task. \<open>return_code_attr\<close> is the attribute \<^verbatim>\<open>_return_code\<close>,
  which does not exist (\<open>None\<close>) until \<^verbatim>\<open>run\<close> assigns it.
\<close>

record 'i AbinitTask =
  workdir :: string
  input :: 'i
  need_files :: "string list"
  input_file :: File
  output_file :: File
  files_file :: File
  log_file :: File
  stderr_file :: File
  jobfile :: JobFile
  return_code_attr :: "int option"

definition AbinitTask_init ::
  "'i externals \<Rightarrow> 'i \<Rightarrow> string \<Rightarrow> (string \<times> string) list option \<Rightarrow> 'i AbinitTask" where
  "AbinitTask_init ext inp wd varpaths =
     (let wdir = os_path_abspath (getcwd ext) wd;
          inp0 = Input_copy ext inp;
          files_f = File_init (getcwd ext) (files_file_bn AbinitTask_basename) wdir;
          log_f = File_init (getcwd ext) (log_file_bn AbinitTask_basename) wdir;
          stderr_f = File_init (getcwd ext) (stderr_file_bn AbinitTask_basename) wdir
      in \<lparr>workdir = wdir,
          input = (case varpaths of
                     None \<Rightarrow> inp0
                   | Some vp \<Rightarrow> Input_add_vars_to_control ext inp0 vp),
          need_files = (case varpaths of None \<Rightarrow> [] | Some vp \<Rightarrow> map snd vp),
          input_file = File_init (getcwd ext) (input_bn AbinitTask_basename) wdir,
          output_file = File_init (getcwd ext) (output_bn AbinitTask_basename) wdir,
          files_file = files_f,
          log_file = log_f,
          stderr_file = stderr_f,
          jobfile = \<lparr>jf_name = os_path_join wdir (jobfile_bn AbinitTask_basename),
                      jf_input = path files_f,
                      jf_log = path log_f,
                      jf_stderr = path stderr_f\<rparr>,
          return_code_attr = None\<rparr>)"

text \<open>The property \<^verbatim>\<open>return_code\<close>: the attribute, or 666 on \<^verbatim>\<open>AttributeError\<close>.\<close>

definition return_code :: "'i AbinitTask \<Rightarrow> int" where
  "return_code t = (case return_code_attr t of Some c \<Rightarrow> c | None \<Rightarrow> 666)"

definition jobfile_path :: "'i AbinitTask \<Rightarrow> string" where
  "jobfile_path t = os_path_join (workdir t) (jobfile_bn AbinitTask_basename)"

definition outfiles_dir :: "'i AbinitTask \<Rightarrow> string" where
  "outfiles_dir t = os_path_join (workdir t) (fst (os_path_split (odata AbinitTask_prefix)))"

definition tmpfiles_dir :: "'i AbinitTask \<Rightarrow> string" where
  "tmpfiles_dir t = os_path_join (workdir t) (fst (os_path_split (tdata AbinitTask_prefix)))"

text \<open>\<^verbatim>\<open>ext[0]\<close> raises \<^verbatim>\<open>IndexError\<close> on the empty string.\<close>

definition odata_path_from_ext :: "'i AbinitTask \<Rightarrow> string \<Rightarrow> exn + string" where
  "odata_path_from_ext t ext =
     (case ext of
        [] \<Rightarrow> Inl IndexError
      | c # _ \<Rightarrow>
          (let ext' = (if c \<noteq> CHR ''_'' then ''_'' @ ext else ext)
           in Inr (os_path_join (workdir t) (odata AbinitTask_prefix @ ext'))))"

definition filesfile_string :: "'i externals \<Rightarrow> 'i AbinitTask \<Rightarrow> string" where
  "filesfile_string ext t =
     str_join [CHR 0x0A]
       ([path (input_file t),
         path (output_file t),
         os_path_join (workdir t) (idata AbinitTask_prefix),
         os_path_join (workdir t) (odata AbinitTask_prefix),
         os_path_join (workdir t) (tdata AbinitTask_prefix)]
        @ Input_pseudo_paths ext (input t))"

text \<open>
  \<^verbatim>\<open>to_dict\<close> and \<^verbatim>\<open>from_dict\<close> begin with \<^verbatim>\<open>raise NotimplementedError("")\<close>, and
  \<^verbatim>\<open>get_runhints\<close> with \<^verbatim>\<open>raise NotImplementedError("")\<close>. A \<^verbatim>\<open>raise\<close> statement first
  looks the name up; the exception names this module can resolve are the builtin ones
  (it defines or imports none under these names), and a name that is not bound raises
  \<^verbatim>\<open>NameError\<close> instead. The statements after the \<^verbatim>\<open>raise\<close> are never reached.
\<close>

definition bound_exceptions :: "(string \<times> (string \<Rightarrow> exn)) list" where
  "bound_exceptions =
     [(''NotImplementedError'', NotImplementedError),
      (''AttributeError'', AttributeError),
      (''KeyError'', KeyError),
      (''NameError'', NameError),
      (''Exception'', Exception)]"

definition raise_by_name :: "string \<Rightarrow> string \<Rightarrow> exn" where
  "raise_by_name name msg =
     (case map_of bound_exceptions name of
        None \<Rightarrow> NameError name
      | Some mk \<Rightarrow> mk msg)"

definition to_dict :: "'i AbinitTask \<Rightarrow> exn + (string \<times> string) list" where
  "to_dict t = Inl (raise_by_name ''NotimplementedError'' [])"

definition from_dict :: "(string \<times> string) list \<Rightarrow> exn + 'i AbinitTask" where
  "from_dict d = Inl (raise_by_name ''NotimplementedError'' [])"

definition get_runhints :: "'i AbinitTask \<Rightarrow> nat \<Rightarrow> exn + (nat \<times> nat \<times> nat)" where
  "get_runhints t max_numproc = Inl (raise_by_name ''NotImplementedError'' [])"

definition path_in_workdir :: "'i AbinitTask \<Rightarrow> string \<Rightarrow> string" where
  "path_in_workdir t filename = os_path_join (workdir t) filename"

text \<open>
  \<^verbatim>\<open>build\<close>: every directory is made and every file is written only when
  \<^verbatim>\<open>os.path.exists\<close> is false for it at that moment.
\<close>

definition unless_exists :: "string \<Rightarrow> unit action \<Rightarrow> unit action" where
  "unless_exists p act w = (if \<not> os_path_exists w p then act w else (Inr (), w))"

definition build :: "'i externals \<Rightarrow> (JobFile \<Rightarrow> string) \<Rightarrow> 'i AbinitTask \<Rightarrow> unit action" where
  "build ext JobFile_str t =
     seq (unless_exists (workdir t) (makedirs (workdir t))) (\<lambda>_.
     seq (unless_exists (outfiles_dir t) (makedirs (outfiles_dir t))) (\<lambda>_.
     seq (unless_exists (tmpfiles_dir t) (makedirs (tmpfiles_dir t))) (\<lambda>_.
     seq (unless_exists (path (input_file t))
            (File_write (input_file t) (Input_str ext (input t)))) (\<lambda>_.
     seq (unless_exists (path (files_file t))
            (File_write (files_file t) (filesfile_string ext t))) (\<lambda>_.
     unless_exists (jobfile_path t)
       (open_write (jobfile_path t) (JobFile_str (jobfile t))))))))"

text \<open>
  \<^verbatim>\<open>run\<close>. The hooks \<^verbatim>\<open>setup\<close> and \<^verbatim>\<open>teardown\<close> are methods that a subclass overrides
  (their bodies here are empty), and \<^verbatim>\<open>subprocess.call\<close> starts the job script and waits
  for it; all three are parameters that act on the world and may raise
  (\<open>AbinitTask_setup\<close> and \<open>AbinitTask_teardown\<close> are the bodies in the class). With a true
  \<^verbatim>\<open>verbose\<close> the method first evaluates \<^verbatim>\<open>self.input_path\<close>, an attribute that no
  task has. There is no \<^verbatim>\<open>try ... finally\<close>: an exception leaves the method at the
  statement that raised it.
\<close>

definition AbinitTask_setup :: "'i AbinitTask \<Rightarrow> unit action" where
  "AbinitTask_setup t w = (Inr (), w)"

definition AbinitTask_teardown :: "'i AbinitTask \<Rightarrow> unit action" where
  "AbinitTask_teardown t w = (Inr (), w)"

definition run ::
  "bool \<Rightarrow> ('i AbinitTask \<Rightarrow> unit action) \<Rightarrow> ('i AbinitTask \<Rightarrow> unit action) \<Rightarrow>
   (JobFile \<Rightarrow> string \<Rightarrow> int action) \<Rightarrow> 'i AbinitTask \<Rightarrow> world \<Rightarrow>
   (exn + int) \<times> 'i AbinitTask \<times> world" where
  "run verbose setup teardown subprocess_call t w =
     (if verbose then (Inl (AttributeError ''input_path''), t, w)
      else
        let lock = path_in_workdir t (lockfile_bn AbinitTask_basename) in
        case FileLock_acquire lock w of
          (Inl e, w1) \<Rightarrow> (Inl e, t, w1)
        | (Inr _, w1) \<Rightarrow>
        (case setup t w1 of
          (Inl e, w2) \<Rightarrow> (Inl e, t, w2)
        | (Inr _, w2) \<Rightarrow>
        (case subprocess_call (jobfile t) (workdir t) w2 of
          (Inl e, w3) \<Rightarrow> (Inl e, t, w3)
        | (Inr rc, w3) \<Rightarrow>
        (let t' = t\<lparr>return_code_attr := Some rc\<rparr> in
         case (if rc = 0 then teardown t' w3 else (Inr (), w3)) of
          (Inl e, w4) \<Rightarrow> (Inl e, t', w4)
        | (Inr _, w4) \<Rightarrow>
        (case FileLock_release lock w4 of
          (_, w5) \<Rightarrow> (Inr rc, t', w5))))))"

section \<open>Status\<close>

datatype level = completed | unstarted | running | error

definition S_OK :: nat where "S_OK = 1"
definition S_WAIT :: nat where "S_WAIT = 2"
definition S_RUN :: nat where "S_RUN = 4"
definition S_ERR :: nat where "S_ERR = 8"

fun level2rank :: "level \<Rightarrow> nat" where
  "level2rank completed = S_OK"
| "level2rank unstarted = S_WAIT"
| "level2rank running = S_RUN"
| "level2rank error = S_ERR"

record 'i Status =
  status_task :: "'i AbinitTask"
  level_str :: level

text \<open>What \<^verbatim>\<open>parse_ewc\<close> returns: the error, warning and comment messages of a file.\<close>

record ewc =
  errors :: "string list"
  warnings :: "string list"
  comments :: "string list"

text \<open>
  The two collaborators read the world: \<^verbatim>\<open>abinit_output_iscomplete(path)\<close> and
  \<^verbatim>\<open>parse_ewc(path, nafter)\<close>. Either may raise.
\<close>

type_synonym iscomplete_fn = "world \<Rightarrow> string \<Rightarrow> exn + bool"
type_synonym parse_ewc_fn = "world \<Rightarrow> string \<Rightarrow> exn + ewc"

definition iscomplete :: "iscomplete_fn \<Rightarrow> 'i AbinitTask \<Rightarrow> world \<Rightarrow> exn + bool" where
  "iscomplete abinit_output_iscomplete t w = abinit_output_iscomplete w (path (output_file t))"

definition read_mainlog_ewc :: "parse_ewc_fn \<Rightarrow> 'i AbinitTask \<Rightarrow> world \<Rightarrow> exn + (ewc \<times> ewc)" where
  "read_mainlog_ewc parse_ewc t w =
     (case parse_ewc w (path (output_file t)) of
        Inl e \<Rightarrow> Inl e
      | Inr main \<Rightarrow>
          (case parse_ewc w (path (log_file t)) of
             Inl e \<Rightarrow> Inl e
           | Inr log \<Rightarrow> Inr (main, log)))"

definition Status_init ::
  "iscomplete_fn \<Rightarrow> parse_ewc_fn \<Rightarrow> 'i AbinitTask \<Rightarrow> world \<Rightarrow> exn + 'i Status" where
  "Status_init abinit_output_iscomplete parse_ewc t w =
     (case iscomplete abinit_output_iscomplete t w of
        Inl e \<Rightarrow> Inl e
      | Inr True \<Rightarrow> Inr \<lparr>status_task = t, level_str = completed\<rparr>
      | Inr False \<Rightarrow>
          if File_exists (output_file t) w \<and> File_exists (log_file t) w then
            (case read_mainlog_ewc parse_ewc t w of
               Inl e \<Rightarrow> Inl e
             | Inr (main, log) \<Rightarrow>
                 (let lv = (if errors main \<noteq> [] \<or> errors log \<noteq> [] then error else running)
                  in case fst (open_readlines (path (stderr_file t)) w) of
                       Inl e \<Rightarrow> Inl e
                     | Inr lines \<Rightarrow>
                         Inr \<lparr>status_task = t,
                              level_str = (if lines \<noteq> [] then error else lv)\<rparr>))
          else Inr \<lparr>status_task = t, level_str = unstarted\<rparr>)"

definition get_status ::
  "iscomplete_fn \<Rightarrow> parse_ewc_fn \<Rightarrow> 'i AbinitTask \<Rightarrow> world \<Rightarrow> exn + 'i Status" where
  "get_status abinit_output_iscomplete parse_ewc t w =
     Status_init abinit_output_iscomplete parse_ewc t w"

definition rank :: "'i Status \<Rightarrow> nat" where
  "rank s = level2rank (level_str s)"

definition Status_lt :: "'i Status \<Rightarrow> 'i Status \<Rightarrow> bool" where
  "Status_lt a b = (rank a < rank b)"

definition Status_le :: "'i Status \<Rightarrow> 'i Status \<Rightarrow> bool" where
  "Status_le a b = (rank a \<le> rank b)"

definition Status_eq :: "'i Status \<Rightarrow> 'i Status \<Rightarrow> bool" where
  "Status_eq a b = (rank a = rank b)"

definition Status_ne :: "'i Status \<Rightarrow> 'i Status \<Rightarrow> bool" where
  "Status_ne a b = (\<not> Status_eq a b)"

definition Status_gt :: "'i Status \<Rightarrow> 'i Status \<Rightarrow> bool" where
  "Status_gt a b = (rank a > rank b)"

definition Status_ge :: "'i Status \<Rightarrow> 'i Status \<Rightarrow> bool" where
  "Status_ge a b = (rank a \<ge> rank b)"

text \<open>
  The builtin \<^verbatim>\<open>max\<close> on a list of \<^verbatim>\<open>Status\<close> objects: \<^verbatim>\<open>ValueError\<close> on the empty
  list; otherwise it keeps the first item and replaces it by each later item that is
  greater (\<^verbatim>\<open>__gt__\<close>) than the one kept.
\<close>

definition builtin_max :: "'i Status list \<Rightarrow> exn + 'i Status" where
  "builtin_max xs =
     (case xs of
        [] \<Rightarrow> Inl ValueError
      | x # rest \<Rightarrow> Inr (foldl (\<lambda>maxval item. if Status_gt item maxval then item else maxval) x rest))"

section \<open>TaskDependencies\<close>

text \<open>
  Dictionaries are association lists with unique keys; \<open>dict_update\<close> is the assignment
  \<^verbatim>\<open>d[k] = v\<close> and \<open>dict_update_all\<close> is \<^verbatim>\<open>d.update(other)\<close>.
\<close>

fun dict_update :: "string \<Rightarrow> 'v \<Rightarrow> (string \<times> 'v) list \<Rightarrow> (string \<times> 'v) list" where
  "dict_update k v [] = [(k, v)]"
| "dict_update k v ((k', v') # kvs) =
     (if k = k' then (k, v) # kvs else (k', v') # dict_update k v kvs)"

definition dict_update_all :: "(string \<times> 'v) list \<Rightarrow> (string \<times> 'v) list \<Rightarrow> (string \<times> 'v) list" where
  "dict_update_all d other = foldl (\<lambda>acc kv. dict_update (fst kv) (snd kv) acc) d other"

definition ext2getvars :: "(string \<times> string) list" where
  "ext2getvars =
     [(''DEN'', ''getden_path''),
      (''WFK'', ''getwfk_path''),
      (''SCR'', ''getscr_path''),
      (''QPS'', ''getqps_path'')]"

record 'i TaskDependencies =
  task :: "'i AbinitTask"
  task_id :: nat
  odata_required :: "string list"

definition TaskDependencies_init :: "'i AbinitTask \<Rightarrow> nat \<Rightarrow> string list \<Rightarrow> 'i TaskDependencies" where
  "TaskDependencies_init t tid required = \<lparr>task = t, task_id = tid, odata_required = required\<rparr>"

definition with_odata :: "'i TaskDependencies \<Rightarrow> string list \<Rightarrow> 'i TaskDependencies" where
  "with_odata dep required = TaskDependencies_init (task dep) (task_id dep) required"

text \<open>
  The loop of \<^verbatim>\<open>get_varpaths\<close>: an extension that is not in the table raises
  \<^verbatim>\<open>KeyError\<close> at the lookup.
\<close>

fun get_varpaths_loop ::
  "'i AbinitTask \<Rightarrow> string list \<Rightarrow> (string \<times> string) list \<Rightarrow> exn + (string \<times> string) list" where
  "get_varpaths_loop t [] vars = Inr vars"
| "get_varpaths_loop t (ext # exts) vars =
     (case map_of ext2getvars ext of
        None \<Rightarrow> Inl (KeyError ext)
      | Some varname \<Rightarrow>
          (case odata_path_from_ext t ext of
             Inl e \<Rightarrow> Inl e
           | Inr p \<Rightarrow> get_varpaths_loop t exts (dict_update varname p vars)))"

definition get_varpaths :: "'i TaskDependencies \<Rightarrow> exn + (string \<times> string) list" where
  "get_varpaths dep = get_varpaths_loop (task dep) (odata_required dep) []"

section \<open>Work\<close>

text \<open>
  \<open>tasks\<close> and \<open>deps\<close> are the attributes \<^verbatim>\<open>_tasks\<close> and \<^verbatim>\<open>_deps\<close>; the latter is an
  ordered dictionary from task identifiers to the dependencies given at registration.
\<close>

record 'i Work =
  Work_workdir :: string
  tasks :: "'i AbinitTask list"
  deps :: "(nat \<times> 'i TaskDependencies list) list"

definition Work_init :: "'i externals \<Rightarrow> string \<Rightarrow> 'i Work" where
  "Work_init ext wd = \<lparr>Work_workdir = os_path_abspath (getcwd ext) wd, tasks = [], deps = []\<rparr>"

definition Work_path_in_workdir :: "'i Work \<Rightarrow> string \<Rightarrow> string" where
  "Work_path_in_workdir wk filename = os_path_join (Work_workdir wk) filename"

text \<open>\<^verbatim>\<open>str(n)\<close> for a natural number.\<close>

fun str_nat :: "nat \<Rightarrow> string" where
  "str_nat n =
     (if n < 10 then [''0123456789'' ! n]
      else str_nat (n div 10) @ [''0123456789'' ! (n mod 10)])"

text \<open>
  The argument \<^verbatim>\<open>depends\<close> of \<^verbatim>\<open>register_input\<close> is one \<^verbatim>\<open>TaskDependencies\<close> object
  (which is true and not iterable, so it is wrapped in a list) or a sequence of them
  (which is false when empty).
\<close>

datatype 'i depends_arg = One "'i TaskDependencies" | Many "'i TaskDependencies list"

fun depends_list :: "'i depends_arg \<Rightarrow> 'i TaskDependencies list" where
  "depends_list (One d) = [d]"
| "depends_list (Many ds) = ds"

fun collect_varpaths ::
  "'i TaskDependencies list \<Rightarrow> (string \<times> string) list \<Rightarrow> exn + (string \<times> string) list" where
  "collect_varpaths [] varpaths = Inr varpaths"
| "collect_varpaths (dep # ds) varpaths =
     (case get_varpaths dep of
        Inl e \<Rightarrow> Inl e
      | Inr vp \<Rightarrow> collect_varpaths ds (dict_update_all varpaths vp))"

definition register_input ::
  "'i externals \<Rightarrow> 'i Work \<Rightarrow> 'i \<Rightarrow> 'i depends_arg \<Rightarrow> exn + ('i Work \<times> 'i TaskDependencies)" where
  "register_input ext wk inp depends =
     (let task_workdir =
            os_path_join (Work_workdir wk) (''task_'' @ str_nat (length (tasks wk) + 1));
          ds = depends_list depends;
          varpaths = (if ds \<noteq> [] then map_sum id Some (collect_varpaths ds []) else Inr None)
      in case varpaths of
           Inl e \<Rightarrow> Inl e
         | Inr vp \<Rightarrow>
             (let new_task = AbinitTask_init ext inp task_workdir vp;
                  tasks' = tasks wk @ [new_task];
                  newtask_id = length tasks'
              in Inr (wk\<lparr>tasks := tasks', deps := deps wk @ [(newtask_id, ds)]\<rparr>,
                      TaskDependencies_init new_task newtask_id [])))"

fun build_tasks ::
  "'i externals \<Rightarrow> (JobFile \<Rightarrow> string) \<Rightarrow> 'i AbinitTask list \<Rightarrow> unit action" where
  "build_tasks ext JobFile_str [] = (\<lambda>w. (Inr (), w))"
| "build_tasks ext JobFile_str (t # ts) =
     seq (build ext JobFile_str t) (\<lambda>_. build_tasks ext JobFile_str ts)"

definition Work_build :: "'i externals \<Rightarrow> (JobFile \<Rightarrow> string) \<Rightarrow> 'i Work \<Rightarrow> unit action" where
  "Work_build ext JobFile_str wk =
     seq (unless_exists (Work_workdir wk) (makedirs (Work_workdir wk)))
         (\<lambda>_. build_tasks ext JobFile_str (tasks wk))"

text \<open>
  \<^verbatim>\<open>get_status\<close>: the list comprehension asks every task in order and stops at the
  first exception; the result is the whole list or, with \<^verbatim>\<open>only_highest_rank\<close>, its
  \<^verbatim>\<open>max\<close>.
\<close>

fun status_list ::
  "iscomplete_fn \<Rightarrow> parse_ewc_fn \<Rightarrow> 'i AbinitTask list \<Rightarrow> world \<Rightarrow> exn + 'i Status list" where
  "status_list ic pe [] w = Inr []"
| "status_list ic pe (t # ts) w =
     (case get_status ic pe t w of
        Inl e \<Rightarrow> Inl e
      | Inr s \<Rightarrow>
          (case status_list ic pe ts w of
             Inl e \<Rightarrow> Inl e
           | Inr ss \<Rightarrow> Inr (s # ss)))"

datatype 'i status_result = Highest "'i Status" | All "'i Status list"

definition Work_get_status ::
  "iscomplete_fn \<Rightarrow> parse_ewc_fn \<Rightarrow> 'i Work \<Rightarrow> bool \<Rightarrow> world \<Rightarrow> exn + 'i status_result" where
  "Work_get_status ic pe wk only_highest_rank w =
     (case status_list ic pe (tasks wk) w of
        Inl e \<Rightarrow> Inl e
      | Inr sl \<Rightarrow>
          if only_highest_rank then map_sum id Highest (builtin_max sl)
          else Inr (All sl))"

text \<open>
  \<^verbatim>\<open>Work.run\<close> begins with \<^verbatim>\<open>num_pythreads = int(kwargs.pop("num_pythreads", 1))\<close>. The
  keyword argument is absent, an integer or \<^verbatim>\<open>None\<close>; \<^verbatim>\<open>int\<close> returns an integer as it
  is and raises \<^verbatim>\<open>TypeError\<close> on \<^verbatim>\<open>None\<close>.
\<close>

datatype pyobj = PyInt int | PyNone

definition builtin_int :: "pyobj \<Rightarrow> exn + int" where
  "builtin_int x = (case x of PyInt n \<Rightarrow> Inr n | PyNone \<Rightarrow> Inl TypeError)"

definition kwargs_pop :: "pyobj option \<Rightarrow> pyobj \<Rightarrow> pyobj" where
  "kwargs_pop arg dflt = (case arg of None \<Rightarrow> dflt | Some x \<Rightarrow> x)"

text \<open>
  The branch for \<^verbatim>\<open>num_pythreads == 1\<close>: the tasks run one after the other in registration
  order, and an exception of one ends the loop.
\<close>

fun run_tasks ::
  "bool \<Rightarrow> ('i AbinitTask \<Rightarrow> unit action) \<Rightarrow> ('i AbinitTask \<Rightarrow> unit action) \<Rightarrow>
   (JobFile \<Rightarrow> string \<Rightarrow> int action) \<Rightarrow> 'i AbinitTask list \<Rightarrow> world \<Rightarrow>
   (exn + unit) \<times> 'i AbinitTask list \<times> world" where
  "run_tasks verbose setup teardown call [] w = (Inr (), [], w)"
| "run_tasks verbose setup teardown call (t # ts) w =
     (case run verbose setup teardown call t w of
        (Inl e, t', w') \<Rightarrow> (Inl e, t' # ts, w')
      | (Inr _, t', w') \<Rightarrow>
          (case run_tasks verbose setup teardown call ts w' of
             (r, ts', w'') \<Rightarrow> (r, t' # ts', w'')))"

text \<open>
  The other branch starts \<^verbatim>\<open>num_pythreads\<close> daemon threads that each loop over
  \<^verbatim>\<open>q.get()\<close>, the call of \<^verbatim>\<open>task.run\<close> and \<^verbatim>\<open>q.task_done()\<close>, puts the \<^verbatim>\<open>run\<close> of
  every task into the queue in registration order and waits in \<^verbatim>\<open>q.join()\<close>.

  A worker is waiting in \<^verbatim>\<open>q.get()\<close>, or it is inside the \<^verbatim>\<open>run\<close> of the task it took
  (with the position of that task in the list of the work, and the statement of \<^verbatim>\<open>run\<close>
  that comes next), or its thread has ended because \<^verbatim>\<open>run\<close> raised: nothing catches
  the exception, \<^verbatim>\<open>task_done\<close> is not called for that item, and the caller of
  \<^verbatim>\<open>Work.run\<close> never sees it.
\<close>

datatype stage = Start | Acquired | SetupDone | Called int | TornDown

datatype 'i worker = Waiting | Busy nat "'i AbinitTask" stage | Dead

text \<open>
  The queue with the items not yet taken, the workers, the count of items for which
  \<^verbatim>\<open>task_done\<close> has not been called, the tasks of the work and the world. The threads
  only wait while the queue is empty, so the model starts when every item has been put.
\<close>

record 'i pool =
  pending :: "(nat \<times> 'i AbinitTask) list"
  workers :: "'i worker list"
  unfinished :: nat
  pool_tasks :: "'i AbinitTask list"
  pool_world :: world

definition set_worker :: "nat \<Rightarrow> 'i worker \<Rightarrow> 'i pool \<Rightarrow> 'i pool" where
  "set_worker i x p = p\<lparr>workers := (workers p)[i := x]\<rparr>"

text \<open>
  One step of worker \<open>i\<close>: it takes the first item of the queue, or executes the next
  statement of \<^verbatim>\<open>run\<close> (the statements are those of \<open>run\<close> above, one hook or one lock
  operation each); the last step releases the lock, returns from \<^verbatim>\<open>run\<close> and calls
  \<^verbatim>\<open>task_done\<close>.
\<close>

definition worker_step ::
  "bool \<Rightarrow> ('i AbinitTask \<Rightarrow> unit action) \<Rightarrow> ('i AbinitTask \<Rightarrow> unit action) \<Rightarrow>
   (JobFile \<Rightarrow> string \<Rightarrow> int action) \<Rightarrow> nat \<Rightarrow> 'i pool \<Rightarrow> 'i pool" where
  "worker_step verbose setup teardown call i p =
     (case workers p ! i of
        Dead \<Rightarrow> p
      | Waiting \<Rightarrow>
          (case pending p of
             [] \<Rightarrow> p
           | (k, t) # rest \<Rightarrow> (set_worker i (Busy k t Start) p)\<lparr>pending := rest\<rparr>)
      | Busy k t st \<Rightarrow>
          (let lock = path_in_workdir t (lockfile_bn AbinitTask_basename);
               w = pool_world p
           in case st of
                Start \<Rightarrow>
                  if verbose then set_worker i Dead p
                  else (case FileLock_acquire lock w of
                          (Inl e, w') \<Rightarrow> (set_worker i Dead p)\<lparr>pool_world := w'\<rparr>
                        | (Inr _, w') \<Rightarrow>
                            (set_worker i (Busy k t Acquired) p)\<lparr>pool_world := w'\<rparr>)
              | Acquired \<Rightarrow>
                  (case setup t w of
                     (Inl e, w') \<Rightarrow> (set_worker i Dead p)\<lparr>pool_world := w'\<rparr>
                   | (Inr _, w') \<Rightarrow>
                       (set_worker i (Busy k t SetupDone) p)\<lparr>pool_world := w'\<rparr>)
              | SetupDone \<Rightarrow>
                  (case call (jobfile t) (workdir t) w of
                     (Inl e, w') \<Rightarrow> (set_worker i Dead p)\<lparr>pool_world := w'\<rparr>
                   | (Inr rc, w') \<Rightarrow>
                       (let t' = t\<lparr>return_code_attr := Some rc\<rparr>
                        in (set_worker i (Busy k t' (Called rc)) p)
                             \<lparr>pool_tasks := (pool_tasks p)[k := t'], pool_world := w'\<rparr>))
              | Called rc \<Rightarrow>
                  (case (if rc = 0 then teardown t w else (Inr (), w)) of
                     (Inl e, w') \<Rightarrow> (set_worker i Dead p)\<lparr>pool_world := w'\<rparr>
                   | (Inr _, w') \<Rightarrow>
                       (set_worker i (Busy k t TornDown) p)\<lparr>pool_world := w'\<rparr>)
              | TornDown \<Rightarrow>
                  (case FileLock_release lock w of
                     (_, w') \<Rightarrow>
                       (set_worker i Waiting p)
                         \<lparr>unfinished := unfinished p - 1, pool_world := w'\<rparr>)))"

text \<open>
  A worker can take a step when it is inside \<^verbatim>\<open>run\<close>, or waiting while the queue is not
  empty. Which of these workers runs next is decided by the thread scheduler, here the
  parameter \<open>sched\<close>.
\<close>

definition enabled :: "'i pool \<Rightarrow> nat \<Rightarrow> bool" where
  "enabled p i =
     (case workers p ! i of
        Waiting \<Rightarrow> pending p \<noteq> []
      | Busy k t st \<Rightarrow> True
      | Dead \<Rightarrow> False)"

definition enabled_workers :: "'i pool \<Rightarrow> nat list" where
  "enabled_workers p = filter (enabled p) [0..<length (workers p)]"

definition pick :: "('i pool \<Rightarrow> nat) \<Rightarrow> 'i pool \<Rightarrow> nat" where
  "pick sched p = enabled_workers p ! (sched p mod length (enabled_workers p))"

definition stage_weight :: "stage \<Rightarrow> nat" where
  "stage_weight st =
     (case st of Start \<Rightarrow> 5 | Acquired \<Rightarrow> 4 | SetupDone \<Rightarrow> 3 | Called rc \<Rightarrow> 2 | TornDown \<Rightarrow> 1)"

definition worker_weight :: "'i worker \<Rightarrow> nat" where
  "worker_weight x = (case x of Waiting \<Rightarrow> 0 | Busy k t st \<Rightarrow> stage_weight st | Dead \<Rightarrow> 0)"

text \<open>The number of steps that the pool can still take, at most.\<close>

definition pool_weight :: "'i pool \<Rightarrow> nat" where
  "pool_weight p = 6 * length (pending p) + sum_list (map worker_weight (workers p))"

text \<open>
  The pool runs until \<^verbatim>\<open>q.join()\<close> returns, which it does as soon as \<^verbatim>\<open>task_done\<close> has
  been called for every item, or until no worker can take a step although items are
  unfinished: then \<^verbatim>\<open>q.join()\<close> waits for ever. The result says whether \<^verbatim>\<open>join\<close>
  returned.
\<close>

function pool_exec ::
  "('i pool \<Rightarrow> nat) \<Rightarrow> bool \<Rightarrow> ('i AbinitTask \<Rightarrow> unit action) \<Rightarrow>
   ('i AbinitTask \<Rightarrow> unit action) \<Rightarrow> (JobFile \<Rightarrow> string \<Rightarrow> int action) \<Rightarrow>
   'i pool \<Rightarrow> bool \<times> 'i pool" where
  "pool_exec sched verbose su td call p =
     (if unfinished p = 0 then (True, p)
      else if enabled_workers p = [] then (False, p)
      else pool_exec sched verbose su td call
             (worker_step verbose su td call (pick sched p) p))"
  by pat_completeness auto
termination
proof (relation "measure (\<lambda>(sched, verbose, su, td, call, p). pool_weight p)")
  show "wf (measure (\<lambda>(sched, verbose, su, td, call, p). pool_weight p))" by simp
next
  fix sched :: "'i pool \<Rightarrow> nat" and verbose su td call and p :: "'i pool"
  assume "unfinished p \<noteq> 0" and en: "enabled_workers p \<noteq> []"
  define i where "i = pick sched p"
  let ?p' = "worker_step verbose su td call i p"
  have "i \<in> set (enabled_workers p)"
    unfolding i_def pick_def using en by (intro nth_mem) simp
  then have i: "i < length (workers p)" and e: "enabled p i"
    by (auto simp: enabled_workers_def)
  have upd: "sum_list (map worker_weight ((workers p)[i := x])) + worker_weight (workers p ! i)
             = sum_list (map worker_weight (workers p)) + worker_weight x" for x
    using i elem_le_sum_list [of i "map worker_weight (workers p)"]
    by (simp add: map_update sum_list_update)
  have "pool_weight ?p' < pool_weight p"
  proof (cases "workers p ! i")
    case Waiting
    with e obtain k t rest where q: "pending p = (k, t) # rest"
      by (cases "pending p") (auto simp: enabled_def)
    with Waiting upd [of "Busy k t Start"] show ?thesis
      by (simp add: worker_step_def set_worker_def pool_weight_def worker_weight_def
          stage_weight_def)
  next
    case Dead
    with e show ?thesis by (simp add: enabled_def)
  next
    case (Busy k t st)
    have "\<exists>x. workers ?p' = (workers p)[i := x] \<and> pending ?p' = pending p
              \<and> worker_weight x < stage_weight st"
      using Busy
      by (cases st)
         (auto simp: worker_step_def set_worker_def Let_def worker_weight_def stage_weight_def
               FileLock_acquire_def FileLock_release_def
               split: prod.splits sum.splits)
    then obtain x where x: "workers ?p' = (workers p)[i := x]" "pending ?p' = pending p"
      "worker_weight x < stage_weight st" by blast
    with Busy upd [of x] show ?thesis
      by (simp add: pool_weight_def worker_weight_def)
  qed
  then show "((sched, verbose, su, td, call, worker_step verbose su td call (pick sched p) p),
         (sched, verbose, su, td, call, p))
        \<in> measure (\<lambda>(sched, verbose, su, td, call, p). pool_weight p)"
    by (simp add: i_def)
qed

text \<open>
  \<^verbatim>\<open>Work.run\<close>. Its outcome is \<open>None\<close> when the call never returns. In the threaded
  branch \<^verbatim>\<open>range(num_pythreads)\<close> is empty for a number below one, so that no worker
  exists.
\<close>

definition pool_init :: "int \<Rightarrow> 'i AbinitTask list \<Rightarrow> world \<Rightarrow> 'i pool" where
  "pool_init n ts w =
     \<lparr>pending = zip [0..<length ts] ts,
      workers = replicate (nat n) Waiting,
      unfinished = length ts,
      pool_tasks = ts,
      pool_world = w\<rparr>"

definition Work_run ::
  "pyobj option \<Rightarrow> ('i pool \<Rightarrow> nat) \<Rightarrow>
   bool \<Rightarrow> ('i AbinitTask \<Rightarrow> unit action) \<Rightarrow> ('i AbinitTask \<Rightarrow> unit action) \<Rightarrow>
   (JobFile \<Rightarrow> string \<Rightarrow> int action) \<Rightarrow> 'i Work \<Rightarrow> world \<Rightarrow>
   (exn + unit) option \<times> 'i Work \<times> world" where
  "Work_run num_pythreads sched verbose task_setup task_teardown call wk w =
     (case builtin_int (kwargs_pop num_pythreads (PyInt 1)) of
        Inl e \<Rightarrow> (Some (Inl e), wk, w)
      | Inr n \<Rightarrow>
          if n = 1 then
            (case run_tasks verbose task_setup task_teardown call (tasks wk) w of
               (r, ts', w') \<Rightarrow> (Some r, wk\<lparr>tasks := ts'\<rparr>, w'))
          else
            (case pool_exec sched verbose task_setup task_teardown call
                    (pool_init n (tasks wk) w) of
               (joined, p) \<Rightarrow>
                 (if joined then Some (Inr ()) else None,
                  wk\<lparr>tasks := pool_tasks p\<rparr>, pool_world p)))"

text \<open>
  \<^verbatim>\<open>Work.start\<close>: acquire, \<^verbatim>\<open>setup\<close>, \<^verbatim>\<open>run\<close>, \<^verbatim>\<open>teardown\<close>, release, in a straight
  line. The hooks of the work are parameters like those of the task. When \<^verbatim>\<open>run\<close> never
  returns, neither does \<^verbatim>\<open>start\<close>.
\<close>

definition Work_setup :: "'i Work \<Rightarrow> unit action" where
  "Work_setup wk w = (Inr (), w)"

definition Work_teardown :: "'i Work \<Rightarrow> unit action" where
  "Work_teardown wk w = (Inr (), w)"

definition start ::
  "('i Work \<Rightarrow> unit action) \<Rightarrow> ('i Work \<Rightarrow> unit action) \<Rightarrow>
   pyobj option \<Rightarrow> ('i pool \<Rightarrow> nat) \<Rightarrow>
   bool \<Rightarrow> ('i AbinitTask \<Rightarrow> unit action) \<Rightarrow> ('i AbinitTask \<Rightarrow> unit action) \<Rightarrow>
   (JobFile \<Rightarrow> string \<Rightarrow> int action) \<Rightarrow> 'i Work \<Rightarrow> world \<Rightarrow>
   (exn + unit) option \<times> 'i Work \<times> world" where
  "start wsetup wteardown num_pythreads sched verbose task_setup task_teardown call wk w =
     (let lock = Work_path_in_workdir wk ''__lock__'' in
      case FileLock_acquire lock w of
        (Inl e, w1) \<Rightarrow> (Some (Inl e), wk, w1)
      | (Inr _, w1) \<Rightarrow>
      (case wsetup wk w1 of
        (Inl e, w2) \<Rightarrow> (Some (Inl e), wk, w2)
      | (Inr _, w2) \<Rightarrow>
      (case Work_run num_pythreads sched verbose task_setup task_teardown call wk w2 of
        (None, wk', w3) \<Rightarrow> (None, wk', w3)
      | (Some (Inl e), wk', w3) \<Rightarrow> (Some (Inl e), wk', w3)
      | (Some (Inr _), wk', w3) \<Rightarrow>
      (case wteardown wk' w3 of
        (Inl e, w4) \<Rightarrow> (Some (Inl e), wk', w4)
      | (Inr _, w4) \<Rightarrow>
      (case FileLock_release lock w4 of
        (_, w5) \<Rightarrow> (Some (Inr ()), wk', w5))))))"

text \<open>
  \<^verbatim>\<open>get_etotal\<close>: \<open>GSR_etotal\<close> stands for opening the file with \<^verbatim>\<open>GSR_Reader\<close> and
  \<^verbatim>\<open>get_value("etotal")\<close>, \<open>np_inf\<close> for \<^verbatim>\<open>np.inf\<close>; the values are of a type \<open>'v\<close> that
  the code only stores. The bare \<^verbatim>\<open>except\<close> catches every exception of the reader.
\<close>

fun get_etotal_loop ::
  "(world \<Rightarrow> string \<Rightarrow> exn + 'v) \<Rightarrow> 'v \<Rightarrow> 'i AbinitTask list \<Rightarrow> world \<Rightarrow> exn + 'v list" where
  "get_etotal_loop GSR_etotal np_inf [] w = Inr []"
| "get_etotal_loop GSR_etotal np_inf (t # ts) w =
     (case odata_path_from_ext t ''GSR'' of
        Inl e \<Rightarrow> Inl e
      | Inr gsr_path \<Rightarrow>
          (let v = (case GSR_etotal w gsr_path of Inl _ \<Rightarrow> np_inf | Inr x \<Rightarrow> x)
           in case get_etotal_loop GSR_etotal np_inf ts w of
                Inl e \<Rightarrow> Inl e
              | Inr vs \<Rightarrow> Inr (v # vs)))"

definition get_etotal ::
  "(world \<Rightarrow> string \<Rightarrow> exn + 'v) \<Rightarrow> 'v \<Rightarrow> 'i Work \<Rightarrow> world \<Rightarrow> exn + 'v list" where
  "get_etotal GSR_etotal np_inf wk w = get_etotal_loop GSR_etotal np_inf (tasks wk) w"

section \<open>Notions used in the proofs\<close>

text \<open>
  A component that \<^verbatim>\<open>normpath\<close> keeps in an absolute path: not empty, not \<^verbatim>\<open>.\<close> or
  \<^verbatim>\<open>..\<close>, and free of slashes.
\<close>

definition good_comp :: "string \<Rightarrow> bool" where
  "good_comp c = (c \<noteq> [] \<and> c \<noteq> ''.'' \<and> c \<noteq> ''..'' \<and> CHR ''/'' \<notin> set c)"

text \<open>
  An action is stable when nothing that exists disappears and repeating it on the world
  it produced gives the same outcome and the same world.
\<close>

definition stable :: "unit action \<Rightarrow> bool" where
  "stable k = (\<forall>w r w'. k w = (r, w') \<longrightarrow>
                 (\<forall>q. os_path_exists w q \<longrightarrow> os_path_exists w' q) \<and> k w' = (r, w'))"

text \<open>
  An action creates a path when, started where the path does not exist, it either fails
  without any effect or makes the path exist and removes nothing.
\<close>

definition creates :: "string \<Rightarrow> unit action \<Rightarrow> bool" where
  "creates p a = (\<forall>w r w'. \<not> os_path_exists w p \<longrightarrow> a w = (r, w') \<longrightarrow>
                   (case r of
                      Inl e \<Rightarrow> w' = w
                    | Inr u \<Rightarrow> os_path_exists w' p
                               \<and> (\<forall>q. os_path_exists w q \<longrightarrow> os_path_exists w' q)))"

text \<open>An action keeps the files when every file that exists keeps its content.\<close>

definition keeps_files :: "unit action \<Rightarrow> bool" where
  "keeps_files k =
     (\<forall>w r w' q c. k w = (r, w') \<longrightarrow> files w q = Some c \<longrightarrow> files w' q = Some c)"

text \<open>An action keeps the locks when it leaves the set of held locks as it is.\<close>

definition keeps_locks :: "'a action \<Rightarrow> bool" where
  "keeps_locks f = (\<forall>w r w'. f w = (r, w') \<longrightarrow> locks w' = locks w)"

text \<open>
  A pool is harmless for a lock when the lock is held and is not the lock of any task
  that is queued or being run.
\<close>

definition pool_ok :: "string \<Rightarrow> 'i pool \<Rightarrow> bool" where
  "pool_ok L p =
     (L \<in> locks (pool_world p)
      \<and> (\<forall>k t. (k, t) \<in> set (pending p) \<longrightarrow>
             path_in_workdir t (lockfile_bn AbinitTask_basename) \<noteq> L)
      \<and> (\<forall>k t st. Busy k t st \<in> set (workers p) \<longrightarrow>
             path_in_workdir t (lockfile_bn AbinitTask_basename) \<noteq> L))"

section \<open>Example objects\<close>

text \<open>
  Concrete collaborators, tasks and worlds on which the theorems below are evaluated. The
  input object is a text, \<^verbatim>\<open>add_vars_to_control\<close> appends one line per variable, and the
  process runs in \<^verbatim>\<open>/home/user\<close>.
\<close>

definition demo_ext :: "string externals" where
  "demo_ext =
     \<lparr>getcwd = ''/home/user'',
      Input_copy = id,
      Input_add_vars_to_control =
        (\<lambda>i vp. i @ concat (map (\<lambda>kv. fst kv @ '' '' @ snd kv @ [CHR 0x0A]) vp)),
      Input_str = id,
      Input_pseudo_paths = (\<lambda>i. [''/pp/H.psp''])\<rparr>"

definition demo_task :: "string AbinitTask" where
  "demo_task = AbinitTask_init demo_ext ''ecut 10'' ''/w'' None"

definition empty_world :: world where
  "empty_world = \<lparr>files = Map.empty, dirs = {}, locks = {}\<rparr>"

text \<open>
  A completeness check that looks for the closing line of the output, and a parser that
  reports the lines beginning with \<^verbatim>\<open>ERROR\<close>.
\<close>

definition demo_iscomplete :: iscomplete_fn where
  "demo_iscomplete w p =
     (case files w p of
        None \<Rightarrow> Inl IOError
      | Some s \<Rightarrow> Inr (endswith s ''Calculation completed''))"

definition demo_parse_ewc :: parse_ewc_fn where
  "demo_parse_ewc w p =
     (case files w p of
        None \<Rightarrow> Inl IOError
      | Some s \<Rightarrow>
          Inr \<lparr>errors = filter (\<lambda>l. startswith l ''ERROR'') (readlines s),
               warnings = [], comments = []\<rparr>)"

text \<open>
  A work with two registered tasks, the second depending on the density file of the
  first.
\<close>

definition demo_work :: "string Work" where
  "demo_work =
     (case register_input demo_ext (Work_init demo_ext ''/wk'') ''ecut 10'' (Many []) of
        Inr (wk1, dep1) \<Rightarrow>
          (case register_input demo_ext wk1 ''ecut 20'' (One (with_odata dep1 [''DEN''])) of
             Inr (wk2, dep2) \<Rightarrow> wk2
           | Inl e \<Rightarrow> wk1)
      | Inl e \<Rightarrow> Work_init demo_ext ''/wk'')"

text \<open>
  A world in which the example task has a complete output although its log reports an
  error and its stderr file is not empty.
\<close>

definition world_completed_with_errors :: world where
  "world_completed_with_errors =
     \<lparr>files = [''/w/run.output'' \<mapsto> ''Calculation completed'',
               ''/w/log'' \<mapsto> ''ERROR: bad input'',
               ''/w/stderr'' \<mapsto> ''Segmentation fault''],
      dirs = {''/w''},
      locks = {}\<rparr>"

text \<open>
  A world for the example work: the first task has completed; the second has an
  unfinished output, a log that reports an error and an empty stderr file.
\<close>

definition world_work :: world where
  "world_work =
     \<lparr>files = [''/wk/task_1/run.output'' \<mapsto> ''Calculation completed'',
               ''/wk/task_2/run.output'' \<mapsto> ''iteration 1'',
               ''/wk/task_2/log'' \<mapsto> ''ERROR: bad input'',
               ''/wk/task_2/stderr'' \<mapsto> []],
      dirs = {''/wk'', ''/wk/task_1'', ''/wk/task_2''},
      locks = {}\<rparr>"

text \<open>The text of a job script, and a world in which an input file is already there.\<close>

definition demo_JobFile_str :: "JobFile \<Rightarrow> string" where
  "demo_JobFile_str jf =
     ''abinit < '' @ jf_input jf @ '' > '' @ jf_log jf @ '' 2> '' @ jf_stderr jf"

definition world_old_input :: world where
  "world_old_input =
     \<lparr>files = [''/w/run.input'' \<mapsto> ''old input''], dirs = {''/w''}, locks = {}\<rparr>"

text \<open>A job that exits with code 3, one that exits with 0, and a launch that fails.\<close>

definition call_exit3 :: "JobFile \<Rightarrow> string \<Rightarrow> int action" where
  "call_exit3 jf cwd w = (Inr 3, w)"

definition call_exit0 :: "JobFile \<Rightarrow> string \<Rightarrow> int action" where
  "call_exit0 jf cwd w = (Inr 0, w)"

definition call_fails :: "JobFile \<Rightarrow> string \<Rightarrow> int action" where
  "call_fails jf cwd w = (Inl OSError, w)"

text \<open>
  A teardown hook of a subclass that raises, a thread scheduler that always lets the
  first worker that can take a step run, and a world in which the first task of the
  example work has an unfinished output and a log but no stderr file.
\<close>

definition teardown_raises :: "'i AbinitTask \<Rightarrow> unit action" where
  "teardown_raises t w = (Inl (Exception ''teardown failed''), w)"

definition first_worker :: "'i pool \<Rightarrow> nat" where
  "first_worker p = 0"

definition world_no_stderr :: world where
  "world_no_stderr =
     \<lparr>files = [''/wk/task_1/run.output'' \<mapsto> ''iteration 1'',
               ''/wk/task_1/log'' \<mapsto> ''iteration 1''],
      dirs = {''/wk'', ''/wk/task_1''},
      locks = {}\<rparr>"

section \<open>Properties\<close>

subsection \<open>Normalised paths\<close>

lemma str_split_nonempty: "str_split sep s \<noteq> []"
  by (induction s) (auto split: list.splits)

lemma str_split_no_sep: "x \<in> set (str_split sep s) \<Longrightarrow> sep \<notin> set x"
  by (induction s arbitrary: x) (auto split: list.splits if_splits)

lemma str_split_single: "sep \<notin> set x \<Longrightarrow> str_split sep x = [x]"
  by (induction x) auto

lemma str_split_append: "sep \<notin> set x \<Longrightarrow> str_split sep (x @ sep # r) = x # str_split sep r"
  by (induction x) (auto split: list.splits)

lemma str_split_join:
  "comps \<noteq> [] \<Longrightarrow> \<forall>x \<in> set comps. CHR ''/'' \<notin> set x \<Longrightarrow>
   str_split (CHR ''/'') (str_join ''/'' comps) = comps"
proof (induction "''/''" comps rule: str_join.induct)
  case 1
  then show ?case by simp
next
  case (2 x)
  then show ?case by (simp add: str_split_single)
next
  case (3 x y ys)
  then show ?case by (simp add: str_split_append)
qed

lemma normpath_loop_good:
  "n \<noteq> 0 \<Longrightarrow> \<forall>x \<in> set acc. good_comp x \<Longrightarrow> \<forall>x \<in> set parts. CHR ''/'' \<notin> set x \<Longrightarrow>
   \<forall>x \<in> set (foldl (normpath_step n) acc parts). good_comp x"
proof (induction parts arbitrary: acc)
  case Nil
  then show ?case by simp
next
  case (Cons p parts)
  have "\<forall>x \<in> set (normpath_step n acc p). good_comp x"
    using Cons.prems by (auto simp: normpath_step_def good_comp_def dest: in_set_butlastD)
  with Cons show ?case by simp
qed

lemma normpath_loop_id:
  "n \<noteq> 0 \<Longrightarrow> \<forall>x \<in> set comps. good_comp x \<Longrightarrow>
   foldl (normpath_step n) acc comps = acc @ comps"
proof (induction comps arbitrary: acc)
  case Nil
  then show ?case by simp
next
  case (Cons c comps)
  have "normpath_step n acc c = acc @ [c]"
    using Cons.prems by (simp add: normpath_step_def good_comp_def)
  with Cons show ?case by simp
qed

lemma normpath_loop_empties:
  "foldl (normpath_step n) acc (replicate k []) = acc"
  by (induction k arbitrary: acc) (simp_all add: normpath_step_def)

lemma str_join_hd: "\<forall>x \<in> set comps. good_comp x \<Longrightarrow> \<not> startswith (str_join ''/'' comps) ''/''"
proof (cases comps)
  case Nil
  then show ?thesis by (simp add: startswith_def)
next
  case (Cons c cs)
  assume "\<forall>x \<in> set comps. good_comp x"
  with Cons obtain a r where c: "c = a # r" "a \<noteq> CHR ''/''"
    by (cases c) (auto simp: good_comp_def)
  show ?thesis using Cons c by (cases cs) (simp_all add: startswith_def)
qed


lemma normpath_absolute_form:
  assumes "startswith q ''/''"
  shows "\<exists>n comps. (n = 1 \<or> n = 2) \<and> (\<forall>x \<in> set comps. good_comp x)
           \<and> os_path_normpath q = replicate n (CHR ''/'') @ str_join ''/'' comps"
proof -
  define n :: nat where
    "n = (if startswith q ''//'' \<and> \<not> startswith q ''///'' then 2 else 1)"
  define comps where "comps = foldl (normpath_step n) [] (str_split (CHR ''/'') q)"
  have q: "q \<noteq> []" using assms by (auto simp: startswith_def)
  have n: "n = 1 \<or> n = 2" by (simp add: n_def)
  then have n0: "n \<noteq> 0" by auto
  have good: "\<forall>x \<in> set comps. good_comp x"
    unfolding comps_def
    by (rule normpath_loop_good [OF n0]) (simp_all add: str_split_no_sep)
  have "os_path_normpath q = replicate n (CHR ''/'') @ str_join ''/'' comps"
    using q assms n by (auto simp: os_path_normpath_def Let_def n_def comps_def)
  with n good show ?thesis by blast
qed

lemma normpath_loop_join:
  assumes "n \<noteq> 0" and "\<forall>x \<in> set comps. good_comp x"
  shows "foldl (normpath_step n) [] (str_split (CHR ''/'') (str_join ''/'' comps)) = comps"
proof (cases comps)
  case Nil
  then show ?thesis by (simp add: normpath_step_def)
next
  case (Cons c cs)
  then have "str_split (CHR ''/'') (str_join ''/'' comps) = comps"
    using assms(2) by (intro str_split_join) (auto simp: good_comp_def)
  then show ?thesis using normpath_loop_id [OF assms, of "[]"] by simp
qed

lemma normpath_fixed:
  assumes "n = 1 \<or> n = 2" and "\<forall>x \<in> set comps. good_comp x"
  shows "os_path_normpath (replicate n (CHR ''/'') @ str_join ''/'' comps)
         = replicate n (CHR ''/'') @ str_join ''/'' comps"
proof -
  let ?j = "str_join ''/'' comps"
  have j: "take (Suc 0) ?j \<noteq> ''/''"
    using str_join_hd [OF assms(2)] by (simp add: startswith_def)
  from assms(1) show ?thesis
  proof
    assume n: "n = 1"
    have "os_path_normpath (CHR ''/'' # ?j) = CHR ''/'' # ?j"
      using j normpath_loop_join [of 1 comps] assms(2)
      by (simp add: os_path_normpath_def Let_def startswith_def normpath_step_def)
    with n show ?thesis by simp
  next
    assume n: "n = 2"
    have "os_path_normpath (CHR ''/'' # CHR ''/'' # ?j) = CHR ''/'' # CHR ''/'' # ?j"
      using j normpath_loop_join [of 2 comps] assms(2)
      by (simp add: os_path_normpath_def Let_def startswith_def normpath_step_def
          numeral_2_eq_2)
    with n show ?thesis by (simp add: numeral_2_eq_2)
  qed
qed

lemma normpath_idem_absolute:
  assumes "startswith q ''/''"
  shows "os_path_normpath (os_path_normpath q) = os_path_normpath q"
    and "startswith (os_path_normpath q) ''/''"
proof -
  from normpath_absolute_form [OF assms] obtain n comps where
    n: "n = 1 \<or> n = 2" and good: "\<forall>x \<in> set comps. good_comp x"
    and eq: "os_path_normpath q = replicate n (CHR ''/'') @ str_join ''/'' comps"
    by blast
  show "os_path_normpath (os_path_normpath q) = os_path_normpath q"
    unfolding eq by (rule normpath_fixed [OF n good])
  show "startswith (os_path_normpath q) ''/''"
    unfolding eq using n by (auto simp: startswith_def numeral_2_eq_2)
qed

lemma join_absolute: "startswith cwd ''/'' \<Longrightarrow> startswith (os_path_join cwd p) ''/''"
  by (cases cwd) (auto simp: os_path_join_def startswith_def)

lemma abspath_idem:
  assumes "startswith cwd ''/''"
  shows "os_path_abspath cwd (os_path_abspath cwd p) = os_path_abspath cwd p"
proof -
  let ?q = "if startswith p ''/'' then p else os_path_join cwd p"
  have q: "startswith ?q ''/''" using join_absolute [OF assms] by simp
  have "os_path_abspath cwd p = os_path_normpath ?q" by (simp add: os_path_abspath_def)
  with normpath_idem_absolute [OF q] show ?thesis by (simp add: os_path_abspath_def)
qed

subsection \<open>Paths of the example task\<close>

lemma abspath_w: "os_path_abspath ''/home/user'' ''/w'' = ''/w''"
  by (simp add: os_path_abspath_def os_path_normpath_def startswith_def normpath_step_def)

lemma demo_task_workdir: "workdir demo_task = ''/w''"
  by (simp add: demo_task_def AbinitTask_init_def Let_def demo_ext_def abspath_w)

lemma demo_task_return_code_attr: "return_code_attr demo_task = None"
  by (simp add: demo_task_def AbinitTask_init_def Let_def)

lemma demo_task_lock: "path_in_workdir demo_task (lockfile_bn AbinitTask_basename) = ''/w/__lock__''"
  by (simp add: path_in_workdir_def demo_task_workdir AbinitTask_basename_def os_path_join_def
      startswith_def endswith_def)

subsection \<open>Output data paths\<close>

text \<open>
  C7. For a non-empty extension that does not begin with an underscore,
  \<^verbatim>\<open>odata_path_from_ext(ext)\<close> and \<^verbatim>\<open>odata_path_from_ext("_" + ext)\<close> return the same
  path, namely the working directory joined with the output-data prefix followed by
  \<^verbatim>\<open>_ext\<close>. The function depends on nothing but the task and the extension.
\<close>

theorem odata_path_from_ext_underscore:
  assumes "ext \<noteq> []" and "hd ext \<noteq> CHR ''_''"
  shows "odata_path_from_ext t ext = odata_path_from_ext t (''_'' @ ext)
       \<and> odata_path_from_ext t ext =
           Inr (os_path_join (workdir t) (odata AbinitTask_prefix @ ''_'' @ ext))"
  using assms by (cases ext) (simp_all add: odata_path_from_ext_def)

theorem odata_path_from_ext_underscore_witness:
  "''GSR'' \<noteq> [] \<and> hd ''GSR'' \<noteq> CHR ''_''
   \<and> odata_path_from_ext demo_task ''GSR'' = odata_path_from_ext demo_task ''_GSR''"
  using odata_path_from_ext_underscore [of "''GSR''" demo_task] by simp

subsection \<open>Serialisation\<close>

text \<open>
  C9. The specification requires \<^verbatim>\<open>to_dict\<close> and \<^verbatim>\<open>from_dict\<close> of a task to fail with a
  "not implemented" error. Evaluated on the code, both raise \<^verbatim>\<open>NameError\<close> for the
  misspelt name \<^verbatim>\<open>NotimplementedError\<close>, not \<^verbatim>\<open>NotImplementedError\<close>.
\<close>

theorem to_dict_raises_NameError:
  "to_dict t = Inl (NameError ''NotimplementedError'')
   \<and> (from_dict d :: exn + 'i AbinitTask) = Inl (NameError ''NotimplementedError'')
   \<and> to_dict t \<noteq> Inl (NotImplementedError [])"
  by (simp add: to_dict_def from_dict_def raise_by_name_def bound_exceptions_def)

subsection \<open>Running a task\<close>

lemma run_verbose:
  "run True su td call t w = (Inl (AttributeError ''input_path''), t, w)"
  by (simp add: run_def)

text \<open>The body of \<^verbatim>\<open>run\<close> with the two lock operations written out.\<close>

lemma run_unfold:
  "run False su td call t w =
     (let lock = path_in_workdir t (lockfile_bn AbinitTask_basename) in
      if lock \<in> locks w then (Inl FileLockException, t, w)
      else case su t (w\<lparr>locks := insert lock (locks w)\<rparr>) of
        (Inl e, w2) \<Rightarrow> (Inl e, t, w2)
      | (Inr u, w2) \<Rightarrow>
        (case call (jobfile t) (workdir t) w2 of
          (Inl e, w3) \<Rightarrow> (Inl e, t, w3)
        | (Inr rc, w3) \<Rightarrow>
          (case (if rc = 0 then td (t\<lparr>return_code_attr := Some rc\<rparr>) w3 else (Inr (), w3)) of
             (Inl e, w4) \<Rightarrow> (Inl e, t\<lparr>return_code_attr := Some rc\<rparr>, w4)
           | (Inr u, w4) \<Rightarrow>
               (Inr rc, t\<lparr>return_code_attr := Some rc\<rparr>, w4\<lparr>locks := locks w4 - {lock}\<rparr>))))"
  by (simp add: run_def Let_def FileLock_acquire_def FileLock_release_def
      split: prod.splits sum.splits)

lemma run_returns:
  assumes "run verbose su td call t w = (Inr rc, t', w')"
  shows "t' = t\<lparr>return_code_attr := Some rc\<rparr>
       \<and> (\<exists>w2 w3. call (jobfile t) (workdir t) w2 = (Inr rc, w3))
       \<and> path_in_workdir t (lockfile_bn AbinitTask_basename) \<notin> locks w'"
proof (cases verbose)
  case True
  with assms show ?thesis by (simp add: run_verbose)
next
  case False
  with assms have *: "run False su td call t w = (Inr rc, t', w')" by simp
  show ?thesis using *
    unfolding run_unfold Let_def
    by (auto split: if_splits prod.splits sum.splits)
qed

lemma run_default_hooks_raises:
  assumes "run verbose AbinitTask_setup AbinitTask_teardown call t w = (Inl e, t', w')"
  shows "t' = t"
proof (cases verbose)
  case True
  with assms show ?thesis by (simp add: run_verbose)
next
  case False
  with assms have *:
    "run False AbinitTask_setup AbinitTask_teardown call t w = (Inl e, t', w')" by simp
  show ?thesis using *
    unfolding run_unfold Let_def AbinitTask_setup_def AbinitTask_teardown_def
    by (simp split: if_splits prod.splits sum.splits)
qed

subsection \<open>Aggregation of total energies\<close>

lemma get_etotal_loop_map:
  "get_etotal_loop G np_inf ts w =
     Inr (map (\<lambda>t. case G w (os_path_join (workdir t) (odata AbinitTask_prefix @ ''_GSR'')) of
                     Inl e \<Rightarrow> np_inf | Inr x \<Rightarrow> x) ts)"
  by (induction ts) (simp_all add: odata_path_from_ext_def)

text \<open>
  C6. \<^verbatim>\<open>get_etotal\<close> always returns, and what it returns has one entry per registered
  task, in registration order: the value read from the task's \<^verbatim>\<open>GSR\<close> file, or
  \<^verbatim>\<open>np.inf\<close> when reading it raised. A failure for one task changes no other entry.
\<close>

theorem get_etotal_aligned:
  "get_etotal GSR_etotal np_inf wk w =
     Inr (map (\<lambda>t. case GSR_etotal w
                          (os_path_join (workdir t) (odata AbinitTask_prefix @ ''_GSR'')) of
                     Inl e \<Rightarrow> np_inf
                   | Inr x \<Rightarrow> x) (tasks wk))
   \<and> length (map (\<lambda>t. case GSR_etotal w
                          (os_path_join (workdir t) (odata AbinitTask_prefix @ ''_GSR'')) of
                     Inl e \<Rightarrow> np_inf
                   | Inr x \<Rightarrow> x) (tasks wk)) = length (tasks wk)"
  by (simp add: get_etotal_def get_etotal_loop_map)

subsection \<open>Evaluation of the example objects\<close>

lemma abspath_eval:
  "os_path_abspath ''/home/user'' ''/wk'' = ''/wk''"
  "os_path_abspath ''/home/user'' ''/wk/task_1'' = ''/wk/task_1''"
  "os_path_abspath ''/home/user'' ''/wk/task_2'' = ''/wk/task_2''"
  by (simp_all add: os_path_abspath_def os_path_normpath_def startswith_def normpath_step_def)

lemma demo_task_paths:
  "path (output_file demo_task) = ''/w/run.output''"
  "path (log_file demo_task) = ''/w/log''"
  "path (stderr_file demo_task) = ''/w/stderr''"
  by (simp_all add: demo_task_def AbinitTask_init_def Let_def File_init_def demo_ext_def
      abspath_w AbinitTask_basename_def os_path_join_def startswith_def endswith_def)

lemma demo_work_tasks:
  "tasks demo_work =
     [AbinitTask_init demo_ext ''ecut 10'' ''/wk/task_1'' None,
      AbinitTask_init demo_ext ''ecut 20'' ''/wk/task_2''
        (Some [(''getden_path'', ''/wk/task_1/output/out_DEN'')])]"
proof -
  have wd: "Work_init demo_ext ''/wk'' = \<lparr>Work_workdir = ''/wk'', tasks = [], deps = []\<rparr>"
    by (simp add: Work_init_def demo_ext_def abspath_eval)
  have j: "os_path_join ''/wk'' ''task_1'' = ''/wk/task_1''"
    "os_path_join ''/wk'' ''task_2'' = ''/wk/task_2''"
    "os_path_join ''/wk/task_1'' ''output/out_DEN'' = ''/wk/task_1/output/out_DEN''"
    "os_path_join ''output'' ''out'' = ''output/out''"
    by (simp_all add: os_path_join_def startswith_def endswith_def)
  have t1: "workdir (AbinitTask_init demo_ext ''ecut 10'' ''/wk/task_1'' None) = ''/wk/task_1''"
    by (simp add: AbinitTask_init_def Let_def demo_ext_def abspath_eval)
  show ?thesis
    by (simp add: demo_work_def wd register_input_def Let_def j 
        get_varpaths_def with_odata_def TaskDependencies_init_def ext2getvars_def
        odata_path_from_ext_def dict_update_all_def t1 AbinitTask_prefix_def)
qed

lemma demo_init_paths:
  "path (output_file (AbinitTask_init demo_ext inp ''/wk/task_1'' vp)) = ''/wk/task_1/run.output''"
  "path (log_file (AbinitTask_init demo_ext inp ''/wk/task_1'' vp)) = ''/wk/task_1/log''"
  "path (stderr_file (AbinitTask_init demo_ext inp ''/wk/task_1'' vp)) = ''/wk/task_1/stderr''"
  "path (output_file (AbinitTask_init demo_ext inp ''/wk/task_2'' vp)) = ''/wk/task_2/run.output''"
  "path (log_file (AbinitTask_init demo_ext inp ''/wk/task_2'' vp)) = ''/wk/task_2/log''"
  "path (stderr_file (AbinitTask_init demo_ext inp ''/wk/task_2'' vp)) = ''/wk/task_2/stderr''"
  by (simp_all add: AbinitTask_init_def Let_def File_init_def demo_ext_def
      abspath_eval AbinitTask_basename_def os_path_join_def startswith_def endswith_def)

lemma demo_work_status_list:
  "map_sum id (map level_str)
     (status_list demo_iscomplete demo_parse_ewc (tasks demo_work) world_work)
   = Inr [completed, error]"
  by (simp add: demo_work_tasks get_status_def Status_init_def iscomplete_def demo_init_paths
      demo_iscomplete_def world_work_def endswith_def File_exists_def os_path_exists_def
      read_mainlog_ewc_def demo_parse_ewc_def startswith_def open_readlines_def)

subsection \<open>Status of a task\<close>

text \<open>
  C2. When the completeness check accepts the output file of a task, \<^verbatim>\<open>get_status\<close>
  returns the status \<^verbatim>\<open>completed\<close>; neither the parser of error messages nor the
  stderr file is consulted on that branch.
\<close>

theorem get_status_completed:
  assumes "abinit_output_iscomplete w (path (output_file t)) = Inr True"
  shows "get_status abinit_output_iscomplete parse_ewc t w =
           Inr \<lparr>status_task = t, level_str = completed\<rparr>"
  using assms by (simp add: get_status_def Status_init_def iscomplete_def)

theorem get_status_completed_witness:
  "demo_iscomplete world_completed_with_errors (path (output_file demo_task)) = Inr True
   \<and> map_sum id errors (demo_parse_ewc world_completed_with_errors (path (log_file demo_task)))
       = Inr [''ERROR: bad input'']
   \<and> fst (open_readlines (path (stderr_file demo_task)) world_completed_with_errors)
       = Inr [''Segmentation fault'']
   \<and> get_status demo_iscomplete demo_parse_ewc demo_task world_completed_with_errors
       = Inr \<lparr>status_task = demo_task, level_str = completed\<rparr>"
proof -
  have c: "demo_iscomplete world_completed_with_errors (path (output_file demo_task)) = Inr True"
    by (simp add: demo_task_paths demo_iscomplete_def world_completed_with_errors_def
        endswith_def)
  have l: "map_sum id errors
             (demo_parse_ewc world_completed_with_errors (path (log_file demo_task)))
           = Inr [''ERROR: bad input'']"
    by (simp add: demo_task_paths demo_parse_ewc_def world_completed_with_errors_def
        startswith_def)
  have e: "fst (open_readlines (path (stderr_file demo_task)) world_completed_with_errors)
           = Inr [''Segmentation fault'']"
    by (simp add: demo_task_paths open_readlines_def world_completed_with_errors_def)
  from c l e get_status_completed [of demo_iscomplete world_completed_with_errors demo_task
      demo_parse_ewc]
  show ?thesis by simp
qed

subsection \<open>Status of a work\<close>

lemma foldl_max_aux:
  "foldl (\<lambda>maxval item. if Status_gt item maxval then item else maxval) x rest \<in> set (x # rest)
   \<and> (\<forall>y \<in> set (x # rest).
         rank y \<le> rank (foldl (\<lambda>maxval item. if Status_gt item maxval then item else maxval) x rest))"
proof (induction rest arbitrary: x)
  case Nil
  show ?case by simp
next
  case (Cons a rest)
  show ?case
    using Cons.IH [of a] Cons.IH [of x]
    by (auto simp: Status_gt_def)
qed

lemma status_list_length:
  "status_list ic pe ts w = Inr sl \<Longrightarrow> length sl = length ts"
  by (induction ts arbitrary: sl) (auto split: sum.splits)

lemma level_of_rank:
  "level2rank a \<le> level2rank b \<longleftrightarrow>
     (a = completed \<or> b = error \<or> a = b \<or> (a = unstarted \<and> b = running))"
  by (cases a; cases b) (simp_all add: S_OK_def S_WAIT_def S_RUN_def S_ERR_def)

subsection \<open>Registration with a dependency\<close>

lemma get_varpaths_DEN:
  "get_varpaths (with_odata a [''DEN'']) =
     Inr [(''getden_path'', os_path_join (workdir (task a)) (odata AbinitTask_prefix @ ''_DEN''))]"
  by (simp add: get_varpaths_def with_odata_def TaskDependencies_init_def ext2getvars_def
      odata_path_from_ext_def)

text \<open>
  C8. Registering an input with a single dependency on task \<open>A\<close> that requests exactly the
  tag \<^verbatim>\<open>DEN\<close> succeeds, and the new task is constructed with exactly one variable
  binding: \<^verbatim>\<open>getden_path\<close>, the entry of the table for \<^verbatim>\<open>DEN\<close>, bound to
  \<^verbatim>\<open>A.odata_path_from_ext("DEN")\<close>. It makes no difference whether the dependency is
  passed alone or as a one-element list.
\<close>

theorem register_input_DEN:
  "(let p = os_path_join (workdir (task a)) (odata AbinitTask_prefix @ ''_DEN'');
        B = AbinitTask_init ext inp
              (os_path_join (Work_workdir wk) (''task_'' @ str_nat (length (tasks wk) + 1)))
              (Some [(''getden_path'', p)])
    in odata_path_from_ext (task a) ''DEN'' = Inr p
     \<and> map_of ext2getvars ''DEN'' = Some ''getden_path''
     \<and> get_varpaths (with_odata a [''DEN'']) = Inr [(''getden_path'', p)]
     \<and> register_input ext wk inp (One (with_odata a [''DEN''])) =
         Inr (wk\<lparr>tasks := tasks wk @ [B],
                 deps := deps wk @ [(length (tasks wk) + 1, [with_odata a [''DEN'']])]\<rparr>,
              TaskDependencies_init B (length (tasks wk) + 1) [])
     \<and> register_input ext wk inp (Many [with_odata a [''DEN'']]) =
         register_input ext wk inp (One (with_odata a [''DEN'']))
     \<and> need_files B = [p])"
  unfolding Let_def
  apply (intro conjI)
       apply (simp add: odata_path_from_ext_def)
      apply (simp add: ext2getvars_def)
     apply (rule get_varpaths_DEN)
    apply (simp add: register_input_def Let_def get_varpaths_DEN dict_update_all_def)
   apply (simp add: register_input_def Let_def)
  apply (simp add: AbinitTask_init_def Let_def)
  done

subsection \<open>Building a task\<close>

lemma creates_makedirs: "creates p (makedirs p)"
  by (auto simp: creates_def makedirs_def os_path_exists_def split: if_splits)

lemma creates_open_write: "creates p (open_write p s)"
  by (auto simp: creates_def open_write_def os_path_exists_def split: if_splits)

lemma stable_last:
  assumes "creates p a"
  shows "stable (unless_exists p a)"
  unfolding stable_def
proof (intro allI impI)
  fix w r w'
  assume run: "unless_exists p a w = (r, w')"
  show "(\<forall>q. os_path_exists w q \<longrightarrow> os_path_exists w' q) \<and> unless_exists p a w' = (r, w')"
  proof (cases "os_path_exists w p")
    case True
    with run show ?thesis by (auto simp: unless_exists_def)
  next
    case False
    with run have a: "a w = (r, w')" by (simp add: unless_exists_def)
    show ?thesis
    proof (cases r)
      case (Inl e)
      with assms False a have "w' = w" by (auto simp: creates_def)
      with run show ?thesis by simp
    next
      case (Inr u)
      with assms False a have "os_path_exists w' p"
        and "\<forall>q. os_path_exists w q \<longrightarrow> os_path_exists w' q"
        by (auto simp: creates_def)
      with Inr show ?thesis by (simp add: unless_exists_def)
    qed
  qed
qed

lemma stable_seq:
  assumes "creates p a" and "stable k"
  shows "stable (seq (unless_exists p a) (\<lambda>_. k))"
  unfolding stable_def
proof (intro allI impI)
  fix w r w'
  assume run: "seq (unless_exists p a) (\<lambda>_. k) w = (r, w')"
  obtain r1 w1 where s1: "unless_exists p a w = (r1, w1)" by (cases "unless_exists p a w")
  from stable_last [OF assms(1)] s1
  have m1: "\<forall>q. os_path_exists w q \<longrightarrow> os_path_exists w1 q"
    and i1: "unless_exists p a w1 = (r1, w1)"
    by (auto simp: stable_def)
  show "(\<forall>q. os_path_exists w q \<longrightarrow> os_path_exists w' q)
        \<and> seq (unless_exists p a) (\<lambda>_. k) w' = (r, w')"
  proof (cases r1)
    case (Inl e)
    with run s1 have "r = Inl e" "w' = w1" by (simp_all add: seq_def)
    with m1 i1 Inl show ?thesis by (simp add: seq_def)
  next
    case (Inr u)
    with run s1 have k: "k w1 = (r, w')" by (simp add: seq_def)
    with assms(2) have m2: "\<forall>q. os_path_exists w1 q \<longrightarrow> os_path_exists w' q"
      and i2: "k w' = (r, w')"
      by (auto simp: stable_def)
    have ex1: "os_path_exists w1 p"
    proof (cases "os_path_exists w p")
      case True
      with m1 show ?thesis by simp
    next
      case False
      with s1 Inr assms(1) show ?thesis by (auto simp: unless_exists_def creates_def)
    qed
    with m2 have "os_path_exists w' p" by simp
    then have "unless_exists p a w' = (Inr (), w')" by (simp add: unless_exists_def)
    with i2 m1 m2 show ?thesis by (simp add: seq_def)
  qed
qed

lemma stable_build: "stable (build ext js t)"
  unfolding build_def File_write_def
  by (intro stable_seq stable_last creates_makedirs creates_open_write)

lemma keeps_files_seq:
  assumes "keeps_files m" and "\<And>x. keeps_files (f x)"
  shows "keeps_files (seq m f)"
  unfolding keeps_files_def
proof (intro allI impI)
  fix w r w' q c
  assume run: "seq m f w = (r, w')" and f: "files w q = Some c"
  obtain r1 w1 where m: "m w = (r1, w1)" by (cases "m w")
  with assms(1) f have f1: "files w1 q = Some c" by (auto simp: keeps_files_def)
  show "files w' q = Some c"
  proof (cases r1)
    case (Inl e)
    with run m f1 show ?thesis by (simp add: seq_def)
  next
    case (Inr x)
    with run m have "f x w1 = (r, w')" by (simp add: seq_def)
    with assms(2) [of x] f1 show ?thesis by (auto simp: keeps_files_def)
  qed
qed

lemma keeps_files_makedirs: "keeps_files (unless_exists p (makedirs p))"
  by (auto simp: keeps_files_def unless_exists_def makedirs_def split: if_splits)

lemma keeps_files_open_write: "keeps_files (unless_exists p (open_write p s))"
  by (auto simp: keeps_files_def unless_exists_def open_write_def os_path_exists_def
      split: if_splits)

lemma keeps_files_build: "keeps_files (build ext js t)"
  unfolding build_def File_write_def
  by (intro keeps_files_seq keeps_files_makedirs keeps_files_open_write)

text \<open>
  C4. \<^verbatim>\<open>build\<close> is idempotent: called again on the world that a first call produced,
  it has the same outcome and leaves that world as it is. No call overwrites anything:
  every file that exists before a call, the input file, the files-list file and the job
  script among them, has the same content after it.
\<close>

theorem build_idempotent:
  "(build ext js t w = (r, w') \<longrightarrow> build ext js t w' = (r, w'))
   \<and> (build ext js t w = (r, w') \<and> files w q = Some c \<longrightarrow> files w' q = Some c)"
  using stable_build [of ext js t] keeps_files_build [of ext js t]
  unfolding stable_def keeps_files_def by blast

lemma demo_build_paths:
  "workdir demo_task = ''/w''"
  "outfiles_dir demo_task = ''/w/output''"
  "tmpfiles_dir demo_task = ''/w/temporary''"
  "path (input_file demo_task) = ''/w/run.input''"
  "path (files_file demo_task) = ''/w/run.files''"
  "jobfile_path demo_task = ''/w/job.sh''"
  by (simp_all add: demo_task_def AbinitTask_init_def Let_def File_init_def demo_ext_def
      abspath_w AbinitTask_basename_def AbinitTask_prefix_def os_path_join_def startswith_def
      endswith_def outfiles_dir_def tmpfiles_dir_def jobfile_path_def os_path_split_def
      rstrip_slash_def)

lemma demo_ancestors:
  "ancestors ''/w/output'' = [''/w'']"
  "ancestors ''/w/temporary'' = [''/w'']"
  by code_simp+

lemma demo_dirnames:
  "os_path_dirname ''/w/run.files'' = ''/w''"
  "os_path_dirname ''/w/job.sh'' = ''/w''"
  by code_simp+

lemma demo_build_old_input:
  "fst (build demo_ext demo_JobFile_str demo_task world_old_input) = Inr ()"
  "files (snd (build demo_ext demo_JobFile_str demo_task world_old_input)) ''/w/job.sh''
     = Some (demo_JobFile_str (jobfile demo_task))"
  by (simp_all add: build_def seq_def unless_exists_def demo_build_paths os_path_exists_def
      world_old_input_def makedirs_def demo_ancestors File_write_def open_write_def isdir_def
      demo_dirnames)

theorem build_idempotent_witness:
  "fst (build demo_ext demo_JobFile_str demo_task world_old_input) = Inr ()
   \<and> path (input_file demo_task) = ''/w/run.input''
   \<and> files world_old_input ''/w/run.input'' = Some ''old input''
   \<and> files (snd (build demo_ext demo_JobFile_str demo_task world_old_input)) ''/w/run.input''
       = Some ''old input''
   \<and> files (snd (build demo_ext demo_JobFile_str demo_task world_old_input)) ''/w/job.sh''
       = Some (demo_JobFile_str (jobfile demo_task))
   \<and> build demo_ext demo_JobFile_str demo_task
        (snd (build demo_ext demo_JobFile_str demo_task world_old_input))
       = build demo_ext demo_JobFile_str demo_task world_old_input"
proof -
  let ?b = "build demo_ext demo_JobFile_str demo_task world_old_input"
  have b: "?b = (fst ?b, snd ?b)" by simp
  have old: "files world_old_input ''/w/run.input'' = Some ''old input''"
    by (simp add: world_old_input_def)
  from build_idempotent [of demo_ext demo_JobFile_str demo_task world_old_input "fst ?b" "snd ?b"
      "''/w/run.input''" "''old input''"] b old
  have "build demo_ext demo_JobFile_str demo_task (snd ?b) = ?b"
    and "files (snd ?b) ''/w/run.input'' = Some ''old input''"
    by simp_all
  with old demo_build_old_input demo_build_paths(4) show ?thesis by simp
qed

subsection \<open>The file layout\<close>

text \<open>
  C5. The specification puts the output file of a task at the working directory joined with
  \<^verbatim>\<open>output/out\<close>. For the example task in \<^verbatim>\<open>/w\<close> the output file is
  \<^verbatim>\<open>/w/run.output\<close>, which is not \<^verbatim>\<open>/w/output/out\<close>.
\<close>

theorem output_file_not_in_output_dir:
  "workdir demo_task = ''/w''
   \<and> os_path_join (workdir demo_task) ''output/out'' = ''/w/output/out''
   \<and> path (output_file demo_task) = ''/w/run.output''
   \<and> path (output_file demo_task) \<noteq> os_path_join (workdir demo_task) ''output/out''"
  by (simp add: demo_task_workdir demo_task_paths os_path_join_def startswith_def endswith_def)

text \<open>
  C5, as the code has it. In a process whose current directory is absolute, the output
  file of a task is the working directory joined with its basename \<^verbatim>\<open>run.output\<close>, so
  it lies in the working directory itself. \<^verbatim>\<open>output/out\<close> is the prefix of the output
  data files, and \<^verbatim>\<open>output\<close> under the working directory is the directory that
  holds them.
\<close>

theorem output_file_layout:
  assumes "startswith (getcwd ext) ''/''"
  shows "path (output_file (AbinitTask_init ext inp wd vp))
           = os_path_join (workdir (AbinitTask_init ext inp wd vp)) ''run.output''
       \<and> basename (output_file (AbinitTask_init ext inp wd vp)) = ''run.output''
       \<and> dirname (output_file (AbinitTask_init ext inp wd vp))
           = workdir (AbinitTask_init ext inp wd vp)
       \<and> odata AbinitTask_prefix = ''output/out''
       \<and> outfiles_dir (AbinitTask_init ext inp wd vp)
           = os_path_join (workdir (AbinitTask_init ext inp wd vp)) ''output''"
  using abspath_idem [OF assms, of wd]
  by (simp add: AbinitTask_init_def Let_def File_init_def AbinitTask_basename_def
      AbinitTask_prefix_def outfiles_dir_def os_path_join_def startswith_def endswith_def
      os_path_split_def rstrip_slash_def)

theorem output_file_layout_witness:
  "startswith (getcwd demo_ext) ''/''
   \<and> workdir demo_task = ''/w''
   \<and> path (output_file demo_task) = ''/w/run.output''"
proof -
  have c: "startswith (getcwd demo_ext) ''/''" by (simp add: demo_ext_def startswith_def)
  from output_file_layout [OF c, of "''ecut 10''" "''/w''" None] c demo_task_workdir
  show ?thesis by (simp add: demo_task_def os_path_join_def startswith_def endswith_def)
qed

end
